theory Spec2Isabelle
  imports Complex_Main
begin

section \<open>JavaScript values used by the action\<close>

text \<open>
  Errors are values. \<open>GaxiosError st\<close> is an instance of the HTTP client's error class,
  \<open>st\<close> being \<open>error.response?.status\<close> (\<open>None\<close> when the error has no response);
  \<open>TypeError\<close> is what reading a property of \<open>undefined\<close> or an invalid URL throws;
  \<open>Error m\<close> is any other error object with message \<open>m\<close>.
\<close>

datatype js_error = GaxiosError "nat option" | TypeError | Error string

fun instanceof_GaxiosError :: "js_error \<Rightarrow> bool" where
  "instanceof_GaxiosError (GaxiosError st) = True"
| "instanceof_GaxiosError e = False"

fun response_status :: "js_error \<Rightarrow> nat option" where
  "response_status (GaxiosError st) = st"
| "response_status e = None"

text \<open>The outcome of an awaited call of a remote client: it returns or it throws.\<close>

datatype api_result = Returns | Throws js_error

text \<open>
  JavaScript numbers, as far as the action computes with them: integers read by
  \<open>Number.parseInt\<close>, their products and quotients. Finite values are exact rationals
  (the doubles are exact below \<open>2^53\<close>); \<open>Num 0\<close> is \<open>+0\<close> and \<open>NZero\<close> is \<open>-0\<close>.
\<close>

datatype js_number = NaN | PInf | NInf | NZero | Num rat

fun js_negative :: "js_number \<Rightarrow> bool" where
  "js_negative NInf = True"
| "js_negative NZero = True"
| "js_negative (Num q) = (q < 0)"
| "js_negative x = False"

fun js_is_zero :: "js_number \<Rightarrow> bool" where
  "js_is_zero NZero = True"
| "js_is_zero (Num q) = (q = 0)"
| "js_is_zero x = False"

fun js_is_inf :: "js_number \<Rightarrow> bool" where
  "js_is_inf PInf = True"
| "js_is_inf NInf = True"
| "js_is_inf x = False"

fun js_magnitude :: "js_number \<Rightarrow> rat" where
  "js_magnitude (Num q) = q"
| "js_magnitude x = 0"

definition js_zero :: "bool \<Rightarrow> js_number" where
  "js_zero neg = (if neg then NZero else Num 0)"

definition js_inf :: "bool \<Rightarrow> js_number" where
  "js_inf neg = (if neg then NInf else PInf)"

definition js_times :: "js_number \<Rightarrow> js_number \<Rightarrow> js_number" where
  "js_times a b =
     (let neg = (js_negative a \<noteq> js_negative b) in
      if a = NaN \<or> b = NaN then NaN
      else if js_is_inf a \<or> js_is_inf b then
        (if js_is_zero a \<or> js_is_zero b then NaN else js_inf neg)
      else if js_is_zero a \<or> js_is_zero b then js_zero neg
      else Num (js_magnitude a * js_magnitude b))"

definition js_divide :: "js_number \<Rightarrow> js_number \<Rightarrow> js_number" where
  "js_divide a b =
     (let neg = (js_negative a \<noteq> js_negative b) in
      if a = NaN \<or> b = NaN then NaN
      else if js_is_inf a then (if js_is_inf b then NaN else js_inf neg)
      else if js_is_inf b then js_zero neg
      else if js_is_zero b then (if js_is_zero a then NaN else js_inf neg)
      else if js_is_zero a then js_zero neg
      else Num (js_magnitude a / js_magnitude b))"

text \<open>\<open>attempt < maxAttempts\<close>, the left operand being a loop counter.\<close>

fun js_less :: "nat \<Rightarrow> js_number \<Rightarrow> bool" where
  "js_less n PInf = True"
| "js_less n (Num q) = (of_nat n < q)"
| "js_less n x = False"

text \<open>A string is truthy when it is present and not empty.\<close>

fun truthy :: "string option \<Rightarrow> bool" where
  "truthy None = False"
| "truthy (Some s) = (s \<noteq> [])"

text \<open>A template literal prints a missing value as \<open>undefined\<close>.\<close>

fun template :: "string option \<Rightarrow> string" where
  "template None = ''undefined''"
| "template (Some s) = s"

subsection \<open>Strings\<close>

text \<open>
  \<open>s.lastIndexOf(c)\<close> for a one-character \<open>c\<close>: the last position of \<open>c\<close>, or \<open>-1\<close>.
\<close>

primrec last_position :: "char \<Rightarrow> string \<Rightarrow> nat option" where
  "last_position c [] = None"
| "last_position c (x # xs) =
     (case last_position c xs of
        Some i \<Rightarrow> Some (Suc i)
      | None \<Rightarrow> if x = c then Some 0 else None)"

definition lastIndexOf :: "string \<Rightarrow> char \<Rightarrow> int" where
  "lastIndexOf s c = (case last_position c s of None \<Rightarrow> - 1 | Some i \<Rightarrow> int i)"

text \<open>
  \<open>s.substring(start, end)\<close>: both indices are clamped to the string, and swapped when
  the first is the larger one. \<open>s.substring(start)\<close> ends at the length of \<open>s\<close>.
\<close>

definition clamp_index :: "string \<Rightarrow> int \<Rightarrow> nat" where
  "clamp_index s i = nat (min (max i 0) (int (length s)))"

definition substring :: "string \<Rightarrow> int \<Rightarrow> int \<Rightarrow> string" where
  "substring s start finish =
     (let a = clamp_index s start; b = clamp_index s finish;
          lo = min a b; hi = max a b
      in take (hi - lo) (drop lo s))"

definition substring_from :: "string \<Rightarrow> int \<Rightarrow> string" where
  "substring_from s start = substring s start (int (length s))"

text \<open>
  \<open>Number.parseInt(s)\<close> without radix: white space is skipped, a sign is read, a prefix
  \<open>0x\<close> selects base 16, and the longest run of digits is the value; without a digit the
  result is \<open>NaN\<close>. The white space is the ASCII part of what JavaScript skips.
\<close>

definition is_js_space :: "char \<Rightarrow> bool" where
  "is_js_space c = (c \<in> set [CHR 0x09, CHR 0x0A, CHR 0x0B, CHR 0x0C, CHR 0x0D, CHR '' ''])"

definition digit_value :: "char \<Rightarrow> nat option" where
  "digit_value c =
     map_of
       [(CHR ''0'', 0), (CHR ''1'', 1), (CHR ''2'', 2), (CHR ''3'', 3), (CHR ''4'', 4),
        (CHR ''5'', 5), (CHR ''6'', 6), (CHR ''7'', 7), (CHR ''8'', 8), (CHR ''9'', 9),
        (CHR ''a'', 10), (CHR ''b'', 11), (CHR ''c'', 12), (CHR ''d'', 13), (CHR ''e'', 14),
        (CHR ''f'', 15), (CHR ''A'', 10), (CHR ''B'', 11), (CHR ''C'', 12), (CHR ''D'', 13),
        (CHR ''E'', 14), (CHR ''F'', 15)] c"

definition is_digit :: "nat \<Rightarrow> char \<Rightarrow> bool" where
  "is_digit R c = (case digit_value c of None \<Rightarrow> False | Some d \<Rightarrow> d < R)"

definition digits_value :: "nat \<Rightarrow> string \<Rightarrow> nat" where
  "digits_value R ds =
     foldl (\<lambda>acc c. acc * R + (case digit_value c of None \<Rightarrow> 0 | Some d \<Rightarrow> d)) 0 ds"

definition parseInt :: "string \<Rightarrow> js_number" where
  "parseInt str =
     (let s = dropWhile is_js_space str;
          neg = (take 1 s = ''-'');
          s1 = (if take 1 s = ''-'' \<or> take 1 s = ''+'' then drop 1 s else s);
          hex = (take 2 s1 = ''0x'' \<or> take 2 s1 = ''0X'');
          R = (if hex then 16 else 10);
          z = takeWhile (is_digit R) (if hex then drop 2 s1 else s1)
      in if z = [] then NaN
         else if digits_value R z = 0 then js_zero neg
         else Num (if neg then - of_nat (digits_value R z) else of_nat (digits_value R z)))"

section \<open>Action inputs and effects\<close>

text \<open>
  The inputs of the workflow step, as \<open>core.getInput\<close> reads them: the value given in the
  workflow or the default of \<open>action.yml\<close>, and the empty string when there is neither.
\<close>

type_synonym inputs = "string \<rightharpoonup> string"

definition getInput :: "inputs \<Rightarrow> string \<Rightarrow> string" where
  "getInput inp k = (case inp k of None \<Rightarrow> [] | Some v \<Rightarrow> v)"

text \<open>The defaults that \<open>action.yml\<close> declares.\<close>

definition action_defaults :: inputs where
  "action_defaults =
     [''allow_unauthenticated'' \<mapsto> ''false'',
      ''image_check_timeout'' \<mapsto> ''30'',
      ''image_check_interval'' \<mapsto> ''5'',
      ''delete_service'' \<mapsto> ''false'',
      ''trigger_label'' \<mapsto> ''lab_environment'']"

text \<open>The document that \<open>cloudRunCreateService\<close> builds.\<close>

record service_document =
  apiVersion :: string
  kind :: string
  metadata_name :: string
  metadata_namespace :: string
  vpc_access_connector :: "string option"
  spec_serviceAccountName :: "string option"
  container_image :: "string option"
  container_env :: "(string \<times> string) list option"
  container_args :: "string list option"

text \<open>
  What a run does to the outside, in order: sleeps, requests to the registry and the
  platform, outputs, and the failure mark of the step. Debug logging is left out.
\<close>

datatype event =
    Delay js_number
  | HeadRequest string
  | ServicesGet string string
  | ServicesReplace string service_document string
  | ServicesCreate string service_document string
  | SetIamPolicy string "string list" string
  | SetOutput string string
  | SetFailed



fun is_set_iam :: "event \<Rightarrow> bool" where
  "is_set_iam (SetIamPolicy r m ro) = True"
| "is_set_iam e = False"

fun is_get :: "event \<Rightarrow> bool" where
  "is_get (ServicesGet n r) = True"
| "is_get e = False"

fun is_head :: "event \<Rightarrow> bool" where
  "is_head (HeadRequest u) = True"
| "is_head e = False"

section \<open>The entry point (main.ts)\<close>

datatype entry_path = RunCreate | RunDestroy

definition main_path :: "inputs \<Rightarrow> entry_path" where
  "main_path inp =
     (if getInput inp ''delete_service'' = ''false'' then RunCreate else RunDestroy)"

section \<open>The service configuration (gcloud.ts)\<close>

record container_configuration =
  envVars :: "(string \<times> string) list"
  arguments :: "string list"

record service_configuration =
  name :: string
  runRegion :: string
  serviceAccountKey :: string
  cfg_image :: "string option"
  serviceAccountName :: "string option"
  vpcConnectorName :: "string option"
  containerConfig :: "container_configuration option"
  project :: string

text \<open>The constructor keeps an optional argument only when it is truthy.\<close>

definition keep_truthy :: "string option \<Rightarrow> string option" where
  "keep_truthy v = (if truthy v then v else None)"

definition new_ServiceConfiguration ::
  "string \<Rightarrow> string \<Rightarrow> string \<Rightarrow> string option \<Rightarrow> string option \<Rightarrow> string option \<Rightarrow>
   container_configuration option \<Rightarrow> service_configuration" where
  "new_ServiceConfiguration n region key img san vpc cc =
     \<lparr>name = n, runRegion = region, serviceAccountKey = key,
      cfg_image = keep_truthy img, serviceAccountName = keep_truthy san,
      vpcConnectorName = keep_truthy vpc, containerConfig = cc, project = []\<rparr>"

definition serviceName :: "service_configuration \<Rightarrow> string" where
  "serviceName c = map (\<lambda>ch. if ch = CHR ''_'' then CHR ''-'' else ch) (name c)"

definition cloudRunCreateService :: "service_configuration \<Rightarrow> service_document" where
  "cloudRunCreateService c =
     \<lparr>apiVersion = ''serving.knative.dev/v1'',
      kind = ''Service'',
      metadata_name = serviceName c,
      metadata_namespace = project c,
      vpc_access_connector = vpcConnectorName c,
      spec_serviceAccountName = serviceAccountName c,
      container_image = cfg_image c,
      container_env = map_option envVars (containerConfig c),
      container_args = map_option arguments (containerConfig c)\<rparr>"

definition rootUrl :: "service_configuration \<Rightarrow> string" where
  "rootUrl c = ''https://'' @ runRegion c @ ''-run.googleapis.com''"

definition resource_name :: "service_configuration \<Rightarrow> string" where
  "resource_name c = ''namespaces/'' @ project c @ ''/services/'' @ serviceName c"

subsection \<open>setCloudRunServiceIAMPolicy\<close>

definition iam_resource :: "service_configuration \<Rightarrow> string" where
  "iam_resource c =
     ''projects/'' @ project c @ ''/locations/'' @ runRegion c @ ''/services/'' @ serviceName c"

text \<open>
  The policy is set when the string read from \<open>allow_unauthenticated\<close> is truthy;
  \<open>iam\<close> is the outcome of the \<open>setIamPolicy\<close> call.
\<close>

definition setCloudRunServiceIAMPolicy ::
  "inputs \<Rightarrow> api_result \<Rightarrow> service_configuration \<Rightarrow> event list \<times> (js_error + unit)" where
  "setCloudRunServiceIAMPolicy inp iam c =
     (if truthy (Some (getInput inp ''allow_unauthenticated'')) then
        (let ev = [SetIamPolicy (iam_resource c) [''allUsers''] ''roles/run.invoker''] in
         case iam of Returns \<Rightarrow> (ev, Inr ()) | Throws e \<Rightarrow> (ev, Inl e))
      else ([], Inr ()))"

subsection \<open>getStatus\<close>

text \<open>
  The part of a \<open>services.get\<close> response that \<open>getStatus\<close> reads:
  \<open>res.data.status\<close> with its \<open>conditions\<close> and \<open>url\<close>.
\<close>

record condition =
  c_status :: string
  lastTransitionTime :: string
  c_message :: "string option"

record service_status =
  conditions :: "condition list"
  status_url :: "string option"

datatype poll_result = PollThrows js_error | PollData "service_status option"

definition get_event :: "service_configuration \<Rightarrow> event" where
  "get_event c = ServicesGet (resource_name c) (rootUrl c)"

text \<open>One round of the loop: \<open>delay(500)\<close>, then the status request.\<close>

definition poll_events :: "service_configuration \<Rightarrow> event list" where
  "poll_events c = [Delay (Num 500), get_event c]"

definition polls :: "service_configuration \<Rightarrow> nat \<Rightarrow> event list" where
  "polls c n = concat (replicate n (poll_events c))"

definition failed_message :: "service_configuration \<Rightarrow> condition \<Rightarrow> string" where
  "failed_message c cnd =
     template (c_message cnd) @
     ''\<newline>View logs for this revision: https://console.cloud.google.com/run/detail/'' @
     runRegion c @ ''/'' @ serviceName c @ ''/logs?project='' @ project c"

definition timeout_message :: string where
  "timeout_message =
     ''Unable to retrieve service URL! Check the Cloud Run deployment for errors.''"

text \<open>
  The polling loop. \<open>poll k\<close> is what the \<open>k\<close>-th status request of the run answers.
  Reading \<open>conditions[0].status\<close> of a response without status or without conditions
  throws a \<open>TypeError\<close>.
\<close>

function getStatus_loop ::
  "(nat \<Rightarrow> poll_result) \<Rightarrow> service_configuration \<Rightarrow> nat \<Rightarrow> event list \<Rightarrow>
   event list \<times> (js_error + string \<times> string)" where
  "getStatus_loop poll c attempt tr =
     (if attempt < 100 then
        (case poll (attempt + 1) of
           PollThrows e \<Rightarrow> (tr @ poll_events c, Inl e)
         | PollData None \<Rightarrow> (tr @ poll_events c, Inl TypeError)
         | PollData (Some st) \<Rightarrow>
             (case conditions st of
                [] \<Rightarrow> (tr @ poll_events c, Inl TypeError)
              | cnd # rest \<Rightarrow>
                  if c_status cnd \<noteq> ''Unknown'' then
                    (if truthy (status_url st) then
                       (tr @ poll_events c @ [SetOutput ''url'' (template (status_url st))],
                        Inr (template (status_url st), lastTransitionTime cnd))
                     else (tr @ poll_events c, Inl (Error (failed_message c cnd))))
                  else getStatus_loop poll c (attempt + 1) (tr @ poll_events c)))
      else (tr, Inl (Error timeout_message)))"
  by pat_completeness auto
termination
  by (relation "measure (\<lambda>(poll, c, attempt, tr). 100 - attempt)") auto

declare getStatus_loop.simps [simp del]

definition getStatus ::
  "(nat \<Rightarrow> poll_result) \<Rightarrow> service_configuration \<Rightarrow>
   event list \<times> (js_error + string \<times> string)" where
  "getStatus poll c = getStatus_loop poll c 0 []"

text \<open>A response whose first condition is still \<open>Unknown\<close>.\<close>

fun unknown_poll :: "poll_result \<Rightarrow> bool" where
  "unknown_poll (PollData (Some st)) =
     (case conditions st of [] \<Rightarrow> False | cnd # rest \<Rightarrow> c_status cnd = ''Unknown'')"
| "unknown_poll r = False"

subsection \<open>createOrUpdate\<close>

text \<open>
  The platform as one run of \<open>createOrUpdate\<close> meets it. \<open>auth\<close> is the outcome of
  providing the credentials, obtaining the client and reading the project id: the error
  thrown or the project id. \<open>probe\<close>, \<open>replace_result\<close>, \<open>create_result\<close> and
  \<open>iam_result\<close> are the outcomes of the first \<open>services.get\<close>, of
  \<open>replaceService\<close>, of \<open>create\<close> and of \<open>setIamPolicy\<close>, should the run call them;
  \<open>status_results k\<close> is the outcome of the \<open>k\<close>-th \<open>services.get\<close> of \<open>getStatus\<close>.
\<close>

record platform =
  auth :: "js_error + string"
  probe :: api_result
  replace_result :: api_result
  create_result :: api_result
  iam_result :: api_result
  status_results :: "nat \<Rightarrow> poll_result"

record deployment =
  url :: string
  logsUrl :: string
  deploymentDate :: string

definition logs_viewer_url :: "service_configuration \<Rightarrow> string" where
  "logs_viewer_url c =
     ''https://console.cloud.google.com/logs/viewer?advancedFilter=resource.type%20%3D%20%22cloud_run_revision%22%0Aresource.labels.service_name%20%3D%20%22'' @
     serviceName c @
     ''%22%0Aresource.labels.location%20%3D%20%22'' @ runRegion c @
     ''%22%0A%20severity%3E%3DDEFAULT&project='' @ project c"

definition replace_event :: "service_configuration \<Rightarrow> event" where
  "replace_event c =
     ServicesReplace (resource_name c) (cloudRunCreateService c) (rootUrl c)"

definition create_event :: "service_configuration \<Rightarrow> event" where
  "create_event c =
     ServicesCreate (''namespaces/'' @ project c) (cloudRunCreateService c) (rootUrl c)"

text \<open>
  The handler of the inner \<open>try\<close>: a \<open>GaxiosError\<close> with status 404 leads to the create
  call, whose own errors are only logged; any other error is only logged.
\<close>

definition on_probe_error :: "service_configuration \<Rightarrow> js_error \<Rightarrow> event list" where
  "on_probe_error c e =
     (if instanceof_GaxiosError e then
        (if response_status e = Some 404 then [create_event c] else [])
      else [])"

text \<open>The inner \<open>try\<close> block: the probe and \<open>replaceService\<close> share one handler.\<close>

definition probe_and_apply :: "platform \<Rightarrow> service_configuration \<Rightarrow> event list" where
  "probe_and_apply pf c =
     (case probe pf of
        Throws e \<Rightarrow> get_event c # on_probe_error c e
      | Returns \<Rightarrow>
          (case replace_result pf of
             Returns \<Rightarrow> [get_event c, replace_event c]
           | Throws e \<Rightarrow> get_event c # replace_event c # on_probe_error c e))"

definition createOrUpdate ::
  "inputs \<Rightarrow> platform \<Rightarrow> service_configuration \<Rightarrow> event list \<times> (js_error + deployment)" where
  "createOrUpdate inp pf c0 =
     (case auth pf of
        Inl e \<Rightarrow> ([SetFailed], Inl e)
      | Inr p \<Rightarrow>
          (let c = c0\<lparr>project := p\<rparr>; tr1 = probe_and_apply pf c in
           case setCloudRunServiceIAMPolicy inp (iam_result pf) c of
             (tr2, Inl e) \<Rightarrow> (tr1 @ tr2 @ [SetFailed], Inl e)
           | (tr2, Inr u) \<Rightarrow>
               (case getStatus (status_results pf) c of
                  (tr3, Inl e) \<Rightarrow> (tr1 @ tr2 @ tr3 @ [SetFailed], Inl e)
                | (tr3, Inr (u, d)) \<Rightarrow>
                    (tr1 @ tr2 @ tr3,
                     Inr \<lparr>url = u, logsUrl = logs_viewer_url c, deploymentDate = d\<rparr>))))"

subsection \<open>Credentials\<close>

text \<open>
  The files and the environment of the process. \<open>setGoogleApplicationCredentials\<close>
  writes its argument to the temporary file \<open>randomTmpFile\<close> (a fresh name in the
  temporary directory) unless \<open>GOOGLE_APPLICATION_CREDENTIALS\<close> is already set.
\<close>

record process_state =
  files :: "string \<rightharpoonup> string"
  environment :: "string \<rightharpoonup> string"

definition setGoogleApplicationCredentials ::
  "string \<Rightarrow> string \<Rightarrow> process_state \<Rightarrow> process_state" where
  "setGoogleApplicationCredentials randomTmpFile key s =
     (if \<not> truthy (environment s ''GOOGLE_APPLICATION_CREDENTIALS'') then
        s\<lparr>files := (files s)(randomTmpFile \<mapsto> key),
          environment := (environment s)(''GOOGLE_APPLICATION_CREDENTIALS'' \<mapsto> randomTmpFile)\<rparr>
      else s)"

text \<open>
  \<open>getEnvVarsFromImage\<close> (docker.ts) reads the same input differently: when a file of
  that name exists the password is the file's contents.
\<close>

definition serviceAccountKeyContents :: "process_state \<Rightarrow> string \<Rightarrow> string" where
  "serviceAccountKeyContents s key =
     (case files s key of Some contents \<Rightarrow> contents | None \<Rightarrow> key)"

section \<open>Waiting for the image (gcloud.ts)\<close>

text \<open>
  The part of a URL object that \<open>waitForDockerImage\<close> reads. The constructor
  \<open>new URL\<close> is the platform's; a run takes it as given (\<open>new_URL\<close> below).
\<close>

record URL =
  host :: string
  pathname :: string

definition imageName :: "URL \<Rightarrow> string" where
  "imageName u =
     substring (pathname u) (lastIndexOf (pathname u) CHR ''/'' + 1)
       (lastIndexOf (pathname u) CHR '':'')"

definition imageTag :: "URL \<Rightarrow> string" where
  "imageTag u = substring_from (pathname u) (lastIndexOf (pathname u) CHR '':'' + 1)"

definition manifest_url :: "string \<Rightarrow> URL \<Rightarrow> string" where
  "manifest_url proj u =
     ''https://'' @ host u @ ''/v2/'' @ proj @ ''/'' @ imageName u @ ''/manifests/'' @ imageTag u"

text \<open>
  The surroundings of one run: \<open>wait_auth\<close> is the outcome of providing the
  credentials, obtaining the client and reading the project id; \<open>new_URL s\<close> is what
  the URL constructor of the platform gives for the string \<open>s\<close>, the URL or the error
  thrown; \<open>head_results k\<close> is the outcome of the \<open>k\<close>-th \<open>HEAD\<close> request.
\<close>

record registry =
  wait_auth :: "js_error + string"
  new_URL :: "string \<Rightarrow> js_error + URL"
  head_results :: "nat \<Rightarrow> api_result"

text \<open>
  The loop of \<open>waitForDockerImage\<close>. It need not end (\<open>maxAttempts\<close> may be infinite),
  so the result is optional: \<open>None\<close> stands for a run that never returns.
\<close>

partial_function (option) wait_loop ::
  "(nat \<Rightarrow> api_result) \<Rightarrow> string \<Rightarrow> js_number \<Rightarrow> js_number \<Rightarrow> nat \<Rightarrow> event list \<Rightarrow>
   (event list \<times> (js_error + bool)) option" where
  "wait_loop head request_url checkInterval maxAttempts attempt tr =
     (if js_less attempt maxAttempts then
        (case head (attempt + 1) of
           Returns \<Rightarrow> Some (tr @ [HeadRequest request_url], Inr True)
         | Throws e \<Rightarrow>
             if instanceof_GaxiosError e then
               (if response_status e \<noteq> Some 404 then Some (tr @ [HeadRequest request_url], Inl e)
                else wait_loop head request_url checkInterval maxAttempts (attempt + 1)
                       (tr @ [HeadRequest request_url, Delay (js_times checkInterval (Num 1000))]))
             else wait_loop head request_url checkInterval maxAttempts (attempt + 1)
                    (tr @ [HeadRequest request_url, Delay (js_times checkInterval (Num 1000))]))
      else Some (tr, Inr False))"

declare wait_loop.simps [code]

definition waitForDockerImage ::
  "inputs \<Rightarrow> registry \<Rightarrow> string \<Rightarrow> (event list \<times> (js_error + bool)) option" where
  "waitForDockerImage inp rg img =
     (case wait_auth rg of
        Inl e \<Rightarrow> Some ([], Inl e)
      | Inr proj \<Rightarrow>
          (case new_URL rg (''https://'' @ img) of
             Inl e \<Rightarrow> Some ([], Inl e)
           | Inr imageUrl \<Rightarrow>
               (let checkInterval = parseInt (getInput inp ''image_check_interval'');
                    maxAttempts =
                      js_divide
                        (js_times (parseInt (getInput inp ''image_check_timeout'')) (Num 60))
                        checkInterval
                in wait_loop (head_results rg) (manifest_url proj imageUrl) checkInterval
                     maxAttempts 0 [])))"

text \<open>The number of registry checks of a run, and the answer "not found".\<close>

definition attempts :: "(event list \<times> (js_error + bool)) option \<Rightarrow> nat" where
  "attempts r = (case r of None \<Rightarrow> 0 | Some (tr, res) \<Rightarrow> length (filter is_head tr))"

definition not_found :: api_result where
  "not_found = Throws (GaxiosError (Some 404))"

text \<open>\<open>n\<close> rounds of the loop that did not find the image: a request and a sleep each.\<close>

definition rounds :: "string \<Rightarrow> js_number \<Rightarrow> nat \<Rightarrow> event list" where
  "rounds u ci n = concat (replicate n [HeadRequest u, Delay (js_times ci (Num 1000))])"

section \<open>Example runs\<close>

text \<open>
  A service named \<open>my_svc\<close> in region \<open>europe-west1\<close>, and three answers of the
  platform to a status request: ready with a URL, still in progress, failed without URL.
\<close>

definition example_service :: service_configuration where
  "example_service =
     new_ServiceConfiguration ''my_svc'' ''europe-west1'' ''{}'' (Some ''gcr.io/p/x:v1'')
       None None None"

definition ready_status :: poll_result where
  "ready_status =
     PollData (Some \<lparr>conditions =
       [\<lparr>c_status = ''True'', lastTransitionTime = ''2020-05-01T10:00:00Z'',
         c_message = None\<rparr>],
       status_url = Some ''https://my-svc-xyz.a.run.app''\<rparr>)"

definition unknown_status :: poll_result where
  "unknown_status =
     PollData (Some \<lparr>conditions =
       [\<lparr>c_status = ''Unknown'', lastTransitionTime = ''2020-05-01T09:59:58Z'',
         c_message = Some ''Waiting for revision''\<rparr>],
       status_url = None\<rparr>)"

definition failed_status :: poll_result where
  "failed_status =
     PollData (Some \<lparr>conditions =
       [\<lparr>c_status = ''False'', lastTransitionTime = ''2020-05-01T10:00:00Z'',
         c_message = Some ''Container failed to start.''\<rparr>],
       status_url = None\<rparr>)"

text \<open>A platform on which every call succeeds and the service is ready at once.\<close>

definition example_platform :: platform where
  "example_platform =
     \<lparr>auth = Inr ''p'', probe = Returns, replace_result = Returns,
      create_result = Returns, iam_result = Returns,
      status_results = (\<lambda>k. ready_status)\<rparr>"

text \<open>
  The URL objects of the references used below, as the constructor gives them. No other
  string is passed to it in these runs; the table is not the constructor elsewhere.
\<close>

definition example_URLs :: "string \<Rightarrow> js_error + URL" where
  "example_URLs s =
     (case map_of
        [(''https://gcr.io/p/x:v1'', \<lparr>host = ''gcr.io'', pathname = ''/p/x:v1''\<rparr>),
         (''https://gcr.io/p/team/x:v1'', \<lparr>host = ''gcr.io'', pathname = ''/p/team/x:v1''\<rparr>),
         (''https://gcr.io/p/x'', \<lparr>host = ''gcr.io'', pathname = ''/p/x''\<rparr>)] s of
        Some u \<Rightarrow> Inr u
      | None \<Rightarrow> Inl TypeError)"

text \<open>A registry that never has the image.\<close>

definition example_registry :: registry where
  "example_registry =
     \<lparr>wait_auth = Inr ''p'', new_URL = example_URLs, head_results = (\<lambda>k. not_found)\<rparr>"

section \<open>Properties\<close>

subsection \<open>The entry point\<close>

text \<open>
  C10. The entry point takes the create-or-update path exactly when the
  \<open>delete_service\<close> input is the string \<open>false\<close>; any other value, such as \<open>False\<close>,
  \<open>0\<close>, \<open>no\<close> or the empty string, takes the delete path.
\<close>

theorem main_path_create_iff_false:
  "(main_path inp = RunCreate) = (getInput inp ''delete_service'' = ''false'') \<and>
   (getInput inp ''delete_service'' \<noteq> ''false'' \<longrightarrow> main_path inp = RunDestroy) \<and>
   (getInput inp ''delete_service'' \<in> {''False'', ''0'', ''no'', []} \<longrightarrow>
      main_path inp = RunDestroy)"
  by (auto simp: main_path_def)

theorem main_path_create_iff_false_witness:
  "getInput [''delete_service'' \<mapsto> ''False''] ''delete_service'' \<noteq> ''false'' \<and>
   getInput [''delete_service'' \<mapsto> ''False''] ''delete_service'' \<in> {''False'', ''0'', ''no'', []} \<and>
   main_path [''delete_service'' \<mapsto> ''False''] = RunDestroy \<and>
   main_path [''delete_service'' \<mapsto> ''false''] = RunCreate"
  using main_path_create_iff_false [of "[''delete_service'' \<mapsto> ''False'']"]
    main_path_create_iff_false [of "[''delete_service'' \<mapsto> ''false'']"]
  by (simp add: getInput_def)

subsection \<open>The invocation policy\<close>

text \<open>
  C4 (the code departs from the claim). With the default input \<open>allow_unauthenticated =
  false\<close> the string read is \<open>false\<close>, which is truthy, so the policy binding of
  \<open>roles/run.invoker\<close> to \<open>allUsers\<close> is set all the same.
\<close>

theorem iam_policy_set_on_default_false:
  "setCloudRunServiceIAMPolicy action_defaults Returns
     (new_ServiceConfiguration ''my_svc'' ''europe-west1'' ''{}'' None None None None
        \<lparr>project := ''p''\<rparr>) =
   ([SetIamPolicy ''projects/p/locations/europe-west1/services/my-svc'' [''allUsers'']
       ''roles/run.invoker''], Inr ())"
  by (simp add: setCloudRunServiceIAMPolicy_def action_defaults_def getInput_def
      new_ServiceConfiguration_def iam_resource_def serviceName_def keep_truthy_def)

subsection \<open>The readiness poller\<close>

lemma polls_Suc: "polls c (Suc n) = poll_events c @ polls c n"
  by (simp add: polls_def)

lemma polls_snoc: "polls c n @ poll_events c = polls c (Suc n)"
  by (induction n) (simp_all add: polls_def)

text \<open>Rounds that answer \<open>Unknown\<close> only advance the counter and the trace.\<close>

lemma getStatus_loop_skip_unknown:
  assumes "attempt + n \<le> 100"
    and "\<forall>k\<in>{attempt + 1..attempt + n}. unknown_poll (poll k)"
  shows "getStatus_loop poll c attempt tr =
         getStatus_loop poll c (attempt + n) (tr @ polls c n)"
  using assms
proof (induction n arbitrary: attempt tr)
  case 0
  then show ?case by (simp add: polls_def)
next
  case (Suc n)
  have "unknown_poll (poll (attempt + 1))" using Suc.prems(2) by simp
  then obtain st cnd rest where st: "poll (attempt + 1) = PollData (Some st)"
    "conditions st = cnd # rest" "c_status cnd = ''Unknown''"
    by (cases "poll (attempt + 1)" rule: unknown_poll.cases) (auto split: list.splits)
  have lt: "attempt < 100" using Suc.prems(1) by simp
  have step: "getStatus_loop poll c attempt tr =
              getStatus_loop poll c (attempt + 1) (tr @ poll_events c)"
    using st lt by (subst getStatus_loop.simps) simp
  have "getStatus_loop poll c (attempt + 1) (tr @ poll_events c)
        = getStatus_loop poll c (attempt + 1 + n) ((tr @ poll_events c) @ polls c n)"
    using Suc.prems by (intro Suc.IH) auto
  with step show ?case by (simp add: polls_Suc)
qed

lemma getStatus_unknown_prefix:
  assumes "n \<le> 100" and "\<forall>k\<in>{1..n}. unknown_poll (poll k)"
  shows "getStatus poll c = getStatus_loop poll c n (polls c n)"
  using getStatus_loop_skip_unknown [of 0 n poll c "[]"] assms
  by (simp add: getStatus_def)

lemma getStatus_ready:
  assumes "n < 100" and "\<forall>k\<in>{1..n}. unknown_poll (poll k)"
    and "poll (Suc n) = PollData (Some st)" and "conditions st = cnd # rest"
    and "c_status cnd \<noteq> ''Unknown''" and "status_url st = Some u" and "u \<noteq> []"
  shows "getStatus poll c =
         (polls c (Suc n) @ [SetOutput ''url'' u], Inr (u, lastTransitionTime cnd))"
proof -
  have "getStatus poll c = getStatus_loop poll c n (polls c n)"
    using assms(1,2) by (intro getStatus_unknown_prefix) auto
  also have "\<dots> = (polls c n @ poll_events c @ [SetOutput ''url'' u],
                   Inr (u, lastTransitionTime cnd))"
    using assms by (subst getStatus_loop.simps) simp
  finally show ?thesis using polls_snoc [of c n] by simp
qed

lemma getStatus_failed:
  assumes "n < 100" and "\<forall>k\<in>{1..n}. unknown_poll (poll k)"
    and "poll (Suc n) = PollData (Some st)" and "conditions st = cnd # rest"
    and "c_status cnd \<noteq> ''Unknown''" and "\<not> truthy (status_url st)"
  shows "getStatus poll c = (polls c (Suc n), Inl (Error (failed_message c cnd)))"
proof -
  have "getStatus poll c = getStatus_loop poll c n (polls c n)"
    using assms(1,2) by (intro getStatus_unknown_prefix) auto
  also have "\<dots> = (polls c n @ poll_events c, Inl (Error (failed_message c cnd)))"
    using assms by (subst getStatus_loop.simps) simp
  finally show ?thesis using polls_snoc [of c n] by simp
qed

lemma getStatus_timeout:
  assumes "\<forall>k\<in>{1..100}. unknown_poll (poll k)"
  shows "getStatus poll c = (polls c 100, Inl (Error timeout_message))"
proof -
  have "getStatus poll c = getStatus_loop poll c 100 (polls c 100)"
    using assms by (intro getStatus_unknown_prefix) auto
  also have "\<dots> = (polls c 100, Inl (Error timeout_message))"
    by (subst getStatus_loop.simps) simp
  finally show ?thesis .
qed

text \<open>The failure message has a line break, the timeout message has none.\<close>

lemma failed_not_timeout: "failed_message c cnd \<noteq> timeout_message"
proof
  assume "failed_message c cnd = timeout_message"
  then have "set (failed_message c cnd) = set timeout_message" by simp
  moreover have "CHR ''\<newline>'' \<in> set (failed_message c cnd)"
    by (simp add: failed_message_def)
  moreover have "CHR ''\<newline>'' \<notin> set timeout_message"
    by (simp add: timeout_message_def)
  ultimately show False by simp
qed

text \<open>
  C3. Each round sleeps 500 ms and reads the first condition of the status. While the
  first \<open>n < 100\<close> rounds answer \<open>Unknown\<close>, round \<open>n + 1\<close> decides: with a URL the
  poller returns the URL and the last-transition time of that condition, without a URL
  it throws an error made of the condition's message and the link to the logs. When all
  100 rounds answer \<open>Unknown\<close> it throws the timeout error, whose message differs from
  every failure message.
\<close>

theorem getStatus_first_terminal_condition:
  "(n < 100 \<and> (\<forall>k\<in>{1..n}. unknown_poll (poll k)) \<and>
    poll (Suc n) = PollData (Some st) \<and> conditions st = cnd # rest \<and>
    c_status cnd \<noteq> ''Unknown'' \<longrightarrow>
      (\<forall>u. status_url st = Some u \<and> u \<noteq> [] \<longrightarrow>
         getStatus poll c =
           (polls c (Suc n) @ [SetOutput ''url'' u], Inr (u, lastTransitionTime cnd))) \<and>
      (\<not> truthy (status_url st) \<longrightarrow>
         getStatus poll c =
           (polls c (Suc n),
            Inl (Error (template (c_message cnd) @
              ''\<newline>View logs for this revision: https://console.cloud.google.com/run/detail/'' @
              runRegion c @ ''/'' @ serviceName c @ ''/logs?project='' @ project c))))) \<and>
   ((\<forall>k\<in>{1..100}. unknown_poll (poll k)) \<longrightarrow>
      getStatus poll c = (polls c 100, Inl (Error timeout_message))) \<and>
   failed_message c cnd \<noteq> timeout_message \<and>
   polls c 1 = [Delay (Num 500), get_event c]"
  using getStatus_ready [of n poll st cnd rest _ c] getStatus_failed [of n poll st cnd rest c]
    getStatus_timeout [of poll c] failed_not_timeout [of c cnd]
  by (auto simp: failed_message_def polls_def poll_events_def)

text \<open>
  C3, at concrete runs: one \<open>Unknown\<close> round followed by a ready service, one followed by
  a failed revision, and a service that never leaves \<open>Unknown\<close>.
\<close>

theorem getStatus_first_terminal_condition_witness:
  "getStatus (\<lambda>k. if k \<le> 1 then unknown_status else ready_status)
     (example_service\<lparr>project := ''p''\<rparr>) =
     (polls (example_service\<lparr>project := ''p''\<rparr>) 2 @
        [SetOutput ''url'' ''https://my-svc-xyz.a.run.app''],
      Inr (''https://my-svc-xyz.a.run.app'', ''2020-05-01T10:00:00Z'')) \<and>
   getStatus (\<lambda>k. if k \<le> 1 then unknown_status else failed_status)
     (example_service\<lparr>project := ''p''\<rparr>) =
     (polls (example_service\<lparr>project := ''p''\<rparr>) 2,
      Inl (Error (''Container failed to start.'' @
        ''\<newline>View logs for this revision: https://console.cloud.google.com/run/detail/europe-west1/my-svc/logs?project=p''))) \<and>
   getStatus (\<lambda>k. unknown_status) (example_service\<lparr>project := ''p''\<rparr>) =
     (polls (example_service\<lparr>project := ''p''\<rparr>) 100, Inl (Error timeout_message))"
proof -
  let ?c = "example_service\<lparr>project := ''p''\<rparr>"
  let ?ready = "\<lparr>conditions =
       [\<lparr>c_status = ''True'', lastTransitionTime = ''2020-05-01T10:00:00Z'',
         c_message = None\<rparr>],
       status_url = Some ''https://my-svc-xyz.a.run.app''\<rparr>"
  let ?failed = "\<lparr>conditions =
       [\<lparr>c_status = ''False'', lastTransitionTime = ''2020-05-01T10:00:00Z'',
         c_message = Some ''Container failed to start.''\<rparr>],
       status_url = None\<rparr>"
  have a: "getStatus (\<lambda>k. if k \<le> 1 then unknown_status else ready_status) ?c =
     (polls ?c 2 @ [SetOutput ''url'' ''https://my-svc-xyz.a.run.app''],
      Inr (''https://my-svc-xyz.a.run.app'', ''2020-05-01T10:00:00Z''))"
    using getStatus_first_terminal_condition
      [of 1 "\<lambda>k. if k \<le> 1 then unknown_status else ready_status" ?ready
        "hd (conditions ?ready)" "[]" ?c]
    by (simp add: unknown_status_def ready_status_def numeral_2_eq_2)
  have b: "getStatus (\<lambda>k. if k \<le> 1 then unknown_status else failed_status) ?c =
     (polls ?c 2,
      Inl (Error (''Container failed to start.'' @
        ''\<newline>View logs for this revision: https://console.cloud.google.com/run/detail/europe-west1/my-svc/logs?project=p'')))"
    using getStatus_first_terminal_condition
      [of 1 "\<lambda>k. if k \<le> 1 then unknown_status else failed_status" ?failed
        "hd (conditions ?failed)" "[]" ?c]
    by (simp add: unknown_status_def failed_status_def example_service_def
        new_ServiceConfiguration_def serviceName_def numeral_2_eq_2)
  have c: "getStatus (\<lambda>k. unknown_status) ?c = (polls ?c 100, Inl (Error timeout_message))"
    using getStatus_first_terminal_condition [of 0 "\<lambda>k. unknown_status" ?ready
        "hd (conditions ?ready)" "[]" ?c]
    by (simp add: unknown_status_def)
  from a b c show ?thesis by simp
qed

subsection \<open>The reconciler\<close>

lemmas eval_defs = createOrUpdate_def probe_and_apply_def on_probe_error_def
  setCloudRunServiceIAMPolicy_def getStatus_def getStatus_loop.simps poll_events_def
  get_event_def replace_event_def create_event_def resource_name_def rootUrl_def
  serviceName_def iam_resource_def example_platform_def example_service_def
  new_ServiceConfiguration_def keep_truthy_def ready_status_def getInput_def
  logs_viewer_url_def Let_def











text \<open>
  C5 (the code departs from the claim). The probe fails with status 500; the handler
  only logs the error, and the run goes on to set the IAM policy and to poll the status,
  here even to a successful deployment.
\<close>

theorem createOrUpdate_continues_after_probe_error:
  "createOrUpdate [''allow_unauthenticated'' \<mapsto> ''true'']
     (example_platform\<lparr>probe := Throws (GaxiosError (Some 500))\<rparr>) example_service =
   ([ServicesGet ''namespaces/p/services/my-svc'' ''https://europe-west1-run.googleapis.com'',
     SetIamPolicy ''projects/p/locations/europe-west1/services/my-svc'' [''allUsers'']
       ''roles/run.invoker'',
     Delay (Num 500),
     ServicesGet ''namespaces/p/services/my-svc'' ''https://europe-west1-run.googleapis.com'',
     SetOutput ''url'' ''https://my-svc-xyz.a.run.app''],
    Inr \<lparr>url = ''https://my-svc-xyz.a.run.app'',
         logsUrl = logs_viewer_url (example_service\<lparr>project := ''p''\<rparr>),
         deploymentDate = ''2020-05-01T10:00:00Z''\<rparr>)"
  by (simp add: eval_defs)

subsection \<open>Waiting for the image\<close>

lemma rounds_Suc: "rounds u ci (Suc n) = [HeadRequest u, Delay (js_times ci (Num 1000))] @ rounds u ci n"
  by (simp add: rounds_def)

lemma filter_head_rounds: "length (filter is_head (rounds u ci n)) = n"
  by (induction n) (simp_all add: rounds_def)

lemma js_less_Num: "(rat_of_nat a < q) = (a < nat \<lceil>q\<rceil>)"
proof -
  have "(rat_of_nat a < q) = (int a < \<lceil>q\<rceil>)"
    by (simp add: less_ceiling_iff)
  then show ?thesis by (simp add: zless_nat_eq_int_zless)
qed

text \<open>Rounds that answer "not found" only advance the counter and the trace.\<close>

lemma wait_loop_skip:
  assumes "\<forall>k\<in>{attempt + 1..attempt + n}. head k = not_found"
    and "\<forall>k\<in>{attempt..<attempt + n}. js_less k m"
  shows "wait_loop head u ci m attempt tr = wait_loop head u ci m (attempt + n) (tr @ rounds u ci n)"
  using assms
proof (induction n arbitrary: attempt tr)
  case 0
  then show ?case by (simp add: rounds_def)
next
  case (Suc n)
  have h: "head (attempt + 1) = not_found" using Suc.prems(1) by simp
  have l: "js_less attempt m" using Suc.prems(2) by simp
  have step: "wait_loop head u ci m attempt tr =
      wait_loop head u ci m (attempt + 1) (tr @ [HeadRequest u, Delay (js_times ci (Num 1000))])"
    using h l by (subst wait_loop.simps) (simp add: not_found_def)
  have "wait_loop head u ci m (attempt + 1) (tr @ [HeadRequest u, Delay (js_times ci (Num 1000))]) =
      wait_loop head u ci m (attempt + 1 + n) ((tr @ [HeadRequest u, Delay (js_times ci (Num 1000))]) @ rounds u ci n)"
    using Suc.prems by (intro Suc.IH) auto
  with step show ?case by (simp add: rounds_Suc)
qed

lemma wait_loop_not_found:
  assumes "\<forall>k\<in>{1..nat \<lceil>q\<rceil>}. head k = not_found"
  shows "wait_loop head u ci (Num q) 0 [] = Some (rounds u ci (nat \<lceil>q\<rceil>), Inr False)"
proof -
  have "wait_loop head u ci (Num q) 0 [] =
        wait_loop head u ci (Num q) (0 + nat \<lceil>q\<rceil>) ([] @ rounds u ci (nat \<lceil>q\<rceil>))"
    using assms by (intro wait_loop_skip) (auto simp: js_less_Num)
  also have "\<dots> = Some (rounds u ci (nat \<lceil>q\<rceil>), Inr False)"
    by (subst wait_loop.simps) (simp add: js_less_Num)
  finally show ?thesis .
qed

text \<open>With a finite bound the loop returns, after at most \<open>\<lceil>maxAttempts\<rceil>\<close> requests.\<close>

lemma wait_loop_finite:
  "\<exists>tr' r. wait_loop head u ci (Num q) attempt tr = Some (tr @ tr', r) \<and>
     length (filter is_head tr') \<le> nat \<lceil>q\<rceil> - attempt"
proof (induction "nat \<lceil>q\<rceil> - attempt" arbitrary: attempt tr)
  case 0
  then have "\<not> js_less attempt (Num q)" by (simp add: js_less_Num)
  then have "wait_loop head u ci (Num q) attempt tr = Some (tr @ [], Inr False)"
    by (subst wait_loop.simps) simp
  then show ?case by fastforce
next
  case (Suc d)
  then have l: "js_less attempt (Num q)" and d: "d = nat \<lceil>q\<rceil> - (attempt + 1)"
    by (auto simp: js_less_Num)
  let ?ev = "[HeadRequest u, Delay (js_times ci (Num 1000))]"
  from Suc.hyps(1) [OF d, of "tr @ ?ev"]
  obtain tr' r where rec: "wait_loop head u ci (Num q) (attempt + 1) (tr @ ?ev) = Some ((tr @ ?ev) @ tr', r)"
    and len: "length (filter is_head tr') \<le> nat \<lceil>q\<rceil> - (attempt + 1)"
    by blast
  have pos: "1 \<le> nat \<lceil>q\<rceil> - attempt" using Suc.hyps(2) by simp
  show ?case
  proof (cases "head (attempt + 1)")
    case Returns
    then have "wait_loop head u ci (Num q) attempt tr = Some (tr @ [HeadRequest u], Inr True)"
      using l by (subst wait_loop.simps) simp
    then show ?thesis using pos by fastforce
  next
    case (Throws e)
    show ?thesis
    proof (cases "instanceof_GaxiosError e \<and> response_status e \<noteq> Some 404")
      case True
      then have "wait_loop head u ci (Num q) attempt tr = Some (tr @ [HeadRequest u], Inl e)"
        using l Throws by (subst wait_loop.simps) simp
      then show ?thesis using pos by fastforce
    next
      case False
      then have "wait_loop head u ci (Num q) attempt tr =
                 wait_loop head u ci (Num q) (attempt + 1) (tr @ ?ev)"
        using l Throws by (subst wait_loop.simps) auto
      with rec have "wait_loop head u ci (Num q) attempt tr = Some (tr @ (?ev @ tr'), r)" by simp
      moreover have "length (filter is_head (?ev @ tr')) \<le> nat \<lceil>q\<rceil> - attempt"
        using len pos by simp
      ultimately show ?thesis by blast
    qed
  qed
qed

lemma max_attempts_positive:
  assumes "0 < t" and "0 < i"
  shows "js_divide (js_times (Num t) (Num 60)) (Num i) = Num (t * 60 / i)"
  using assms by (simp add: js_divide_def js_times_def)

lemma max_attempts_nonpositive:
  assumes "(t \<le> 0 \<and> 0 < i) \<or> (0 \<le> t \<and> i < 0)"
  shows "\<not> js_less 0 (js_divide (js_times (Num t) (Num 60)) (Num i))"
  using assms
  by (auto simp: js_divide_def js_times_def js_zero_def Let_def divide_le_0_iff not_less
      mult_le_0_iff zero_le_mult_iff)

lemma js_less_mono: "js_less n m \<Longrightarrow> k \<le> n \<Longrightarrow> js_less k m"
  by (cases m) auto

text \<open>
  What holds of the second claim: after \<open>n\<close> answers "not found" within the budget, an
  image that exists gives \<open>true\<close> at request \<open>n + 1\<close>, and a \<open>GaxiosError\<close> whose status
  is not 404 is thrown at once.
\<close>

lemma wait_loop_true_on_next:
  assumes "\<forall>k\<in>{1..n}. head k = not_found" and "head (Suc n) = Returns" and "js_less n m"
  shows "wait_loop head u ci m 0 [] = Some (rounds u ci n @ [HeadRequest u], Inr True)"
proof -
  have "wait_loop head u ci m 0 [] = wait_loop head u ci m (0 + n) ([] @ rounds u ci n)"
    using assms js_less_mono [OF assms(3)] by (intro wait_loop_skip) auto
  also have "\<dots> = Some (rounds u ci n @ [HeadRequest u], Inr True)"
    using assms(2,3) by (subst wait_loop.simps) simp
  finally show ?thesis .
qed

lemma wait_loop_throws_gaxios:
  assumes "\<forall>k\<in>{1..n}. head k = not_found" and "head (Suc n) = Throws (GaxiosError st)"
    and "st \<noteq> Some 404" and "js_less n m"
  shows "wait_loop head u ci m 0 [] =
         Some (rounds u ci n @ [HeadRequest u], Inl (GaxiosError st))"
proof -
  have "wait_loop head u ci m 0 [] = wait_loop head u ci m (0 + n) ([] @ rounds u ci n)"
    using assms js_less_mono [OF assms(4)] by (intro wait_loop_skip) auto
  also have "\<dots> = Some (rounds u ci n @ [HeadRequest u], Inl (GaxiosError st))"
    using assms(2,3,4) by (subst wait_loop.simps) simp
  finally show ?thesis .
qed

text \<open>
  C2 (the code departs from the claim). The first request fails with an error that is
  not a \<open>GaxiosError\<close> (a failed name lookup); the handler lets it pass, the loop sleeps
  and asks again, and the run returns \<open>true\<close> at the second request.
\<close>

theorem waitForDockerImage_retries_other_error:
  "waitForDockerImage [''image_check_timeout'' \<mapsto> ''1'', ''image_check_interval'' \<mapsto> ''30'']
     (example_registry\<lparr>head_results :=
        (\<lambda>k. if k = 1 then Throws (Error ''getaddrinfo ENOTFOUND gcr.io'') else Returns)\<rparr>)
     ''gcr.io/p/x:v1'' =
   Some ([HeadRequest ''https://gcr.io/v2/p/x/manifests/v1'', Delay (Num 30000),
          HeadRequest ''https://gcr.io/v2/p/x/manifests/v1''], Inr True)"
  by code_simp

text \<open>
  C6, as amended. With a positive timeout \<open>t\<close> (minutes) and interval \<open>i\<close> (seconds) the
  run returns, after at most \<open>\<lceil>t * 60 / i\<rceil>\<close> requests; against a registry that
  answers "not found" throughout it makes exactly that many requests and returns
  \<open>false\<close>.
\<close>

theorem waitForDockerImage_attempts_bound:
  assumes "parseInt (getInput inp ''image_check_timeout'') = Num t"
    and "parseInt (getInput inp ''image_check_interval'') = Num i"
    and "0 < t" and "0 < i"
  shows "(\<exists>tr r. waitForDockerImage inp rg img = Some (tr, r)) \<and>
         attempts (waitForDockerImage inp rg img) \<le> nat \<lceil>t * 60 / i\<rceil> \<and>
         (wait_auth rg = Inr proj \<and> new_URL rg (''https://'' @ img) = Inr u \<and>
          (\<forall>k\<in>{1..nat \<lceil>t * 60 / i\<rceil>}. head_results rg k = not_found) \<longrightarrow>
            waitForDockerImage inp rg img =
              Some (rounds (manifest_url proj u) (Num i) (nat \<lceil>t * 60 / i\<rceil>), Inr False) \<and>
            attempts (waitForDockerImage inp rg img) = nat \<lceil>t * 60 / i\<rceil>)"
proof -
  have m: "js_divide (js_times (parseInt (getInput inp ''image_check_timeout'')) (Num 60))
             (parseInt (getInput inp ''image_check_interval'')) = Num (t * 60 / i)"
    using assms by (simp add: max_attempts_positive)
  have run: "\<exists>tr r. waitForDockerImage inp rg img = Some (tr, r) \<and>
               length (filter is_head tr) \<le> nat \<lceil>t * 60 / i\<rceil>"
  proof (cases "wait_auth rg")
    case (Inl e)
    then show ?thesis by (simp add: waitForDockerImage_def)
  next
    case (Inr p)
    show ?thesis
    proof (cases "new_URL rg (''https://'' @ img)")
      case (Inl e)
      with Inr show ?thesis by (simp add: waitForDockerImage_def)
    next
      case (Inr v)
      from wait_loop_finite [of "head_results rg" "manifest_url p v" "Num i" "t * 60 / i" 0 "[]"]
      show ?thesis using \<open>wait_auth rg = Inr p\<close> Inr m assms(2)
        by (simp add: waitForDockerImage_def Let_def)
    qed
  qed
  then have bound: "attempts (waitForDockerImage inp rg img) \<le> nat \<lceil>t * 60 / i\<rceil>"
    by (auto simp: attempts_def)
  have nf: "waitForDockerImage inp rg img =
              Some (rounds (manifest_url proj u) (Num i) (nat \<lceil>t * 60 / i\<rceil>), Inr False)"
    if "wait_auth rg = Inr proj" "new_URL rg (''https://'' @ img) = Inr u"
      "\<forall>k\<in>{1..nat \<lceil>t * 60 / i\<rceil>}. head_results rg k = not_found"
    using that m assms(2) wait_loop_not_found [of "t * 60 / i" "head_results rg"]
    by (simp add: waitForDockerImage_def Let_def)
  show ?thesis
    using run bound nf by (auto simp: attempts_def filter_head_rounds)
qed

text \<open>C6, as amended, at one minute and 30 seconds: two requests, then \<open>false\<close>.\<close>

theorem waitForDockerImage_attempts_bound_witness:
  "waitForDockerImage [''image_check_timeout'' \<mapsto> ''1'', ''image_check_interval'' \<mapsto> ''30'']
     example_registry ''gcr.io/p/x:v1'' =
     Some ([HeadRequest ''https://gcr.io/v2/p/x/manifests/v1'', Delay (Num 30000),
            HeadRequest ''https://gcr.io/v2/p/x/manifests/v1'', Delay (Num 30000)], Inr False) \<and>
   attempts (waitForDockerImage
     [''image_check_timeout'' \<mapsto> ''1'', ''image_check_interval'' \<mapsto> ''30'']
     example_registry ''gcr.io/p/x:v1'') = 2"
proof -
  let ?inp = "[''image_check_timeout'' \<mapsto> ''1'', ''image_check_interval'' \<mapsto> ''30'']"
  let ?u = "\<lparr>host = ''gcr.io'', pathname = ''/p/x:v1''\<rparr>"
  have t: "parseInt (getInput ?inp ''image_check_timeout'') = Num 1" by code_simp
  have i: "parseInt (getInput ?inp ''image_check_interval'') = Num 30" by code_simp
  have u: "new_URL example_registry (''https://'' @ ''gcr.io/p/x:v1'') = Inr ?u" by code_simp
  have m: "manifest_url ''p'' ?u = ''https://gcr.io/v2/p/x/manifests/v1''" by code_simp
  have r: "rounds ''https://gcr.io/v2/p/x/manifests/v1'' (Num 30) 2 =
     [HeadRequest ''https://gcr.io/v2/p/x/manifests/v1'', Delay (Num 30000),
      HeadRequest ''https://gcr.io/v2/p/x/manifests/v1'', Delay (Num 30000)]" by code_simp
  have n: "nat \<lceil>(1::rat) * 60 / 30\<rceil> = 2" by simp
  show ?thesis
    using waitForDockerImage_attempts_bound [OF t i, of example_registry "''gcr.io/p/x:v1''" "''p''" ?u]
      u m r n
    by (simp add: example_registry_def attempts_def)
qed

text \<open>
  C6, as stated, fails: one minute and 45 seconds give \<open>\<lfloor>60 / 45\<rfloor> = 1\<close>, and the run
  makes two requests.
\<close>

theorem waitForDockerImage_exceeds_floor:
  "\<not> attempts (waitForDockerImage
        [''image_check_timeout'' \<mapsto> ''1'', ''image_check_interval'' \<mapsto> ''45'']
        example_registry ''gcr.io/p/x:v1'') \<le> nat \<lfloor>(1 * 60 :: rat) / 45\<rfloor>"
proof -
  have "attempts (waitForDockerImage
        [''image_check_timeout'' \<mapsto> ''1'', ''image_check_interval'' \<mapsto> ''45'']
        example_registry ''gcr.io/p/x:v1'') = 2"
    by code_simp
  moreover have "\<lfloor>(1 * 60 :: rat) / 45\<rfloor> = 1"
    by (rule floor_unique) simp_all
  ultimately show ?thesis by simp
qed

text \<open>
  C7, as amended. When the timeout is not positive and the interval is positive, or the
  timeout is not negative and the interval is negative, the run makes no request and
  returns \<open>false\<close>; it throws nothing.
\<close>

theorem waitForDockerImage_nonpositive_returns_false:
  assumes "wait_auth rg = Inr proj" and "new_URL rg (''https://'' @ img) = Inr u"
    and "parseInt (getInput inp ''image_check_timeout'') = Num t"
    and "parseInt (getInput inp ''image_check_interval'') = Num i"
    and "(t \<le> 0 \<and> 0 < i) \<or> (0 \<le> t \<and> i < 0)"
  shows "waitForDockerImage inp rg img = Some ([], Inr False)"
  using assms(1-4) max_attempts_nonpositive [OF assms(5)]
  by (simp add: waitForDockerImage_def Let_def wait_loop.simps)

text \<open>C7, as amended, at a timeout of \<open>-1\<close> minutes.\<close>

theorem waitForDockerImage_nonpositive_returns_false_witness:
  "waitForDockerImage [''image_check_timeout'' \<mapsto> ''-1'', ''image_check_interval'' \<mapsto> ''5'']
     example_registry ''gcr.io/p/x:v1'' = Some ([], Inr False)"
proof -
  let ?inp = "[''image_check_timeout'' \<mapsto> ''-1'', ''image_check_interval'' \<mapsto> ''5'']"
  have t: "parseInt (getInput ?inp ''image_check_timeout'') = Num (- 1)" by code_simp
  have i: "parseInt (getInput ?inp ''image_check_interval'') = Num 5" by code_simp
  have u: "new_URL example_registry (''https://'' @ ''gcr.io/p/x:v1'') =
           Inr \<lparr>host = ''gcr.io'', pathname = ''/p/x:v1''\<rparr>"
    by code_simp
  have a: "wait_auth example_registry = Inr ''p''" by (simp add: example_registry_def)
  show ?thesis
    using waitForDockerImage_nonpositive_returns_false [OF a u t i] by simp
qed

text \<open>
  C7, as stated, fails: a timeout of zero returns \<open>false\<close> without any error, and an
  interval of zero does not keep the run from asking the registry.
\<close>

theorem waitForDockerImage_no_config_error:
  "waitForDockerImage [''image_check_timeout'' \<mapsto> ''0'', ''image_check_interval'' \<mapsto> ''5'']
     example_registry ''gcr.io/p/x:v1'' = Some ([], Inr False) \<and>
   waitForDockerImage [''image_check_timeout'' \<mapsto> ''1'', ''image_check_interval'' \<mapsto> ''0'']
     (example_registry\<lparr>head_results := (\<lambda>k. Returns)\<rparr>) ''gcr.io/p/x:v1'' =
     Some ([HeadRequest ''https://gcr.io/v2/p/x/manifests/v1''], Inr True)"
  by code_simp

subsection \<open>The image reference\<close>

lemma last_position_absent: "c \<notin> set s \<Longrightarrow> last_position c s = None"
  by (induction s) auto

lemma last_position_last: "c \<notin> set b \<Longrightarrow> last_position c (a @ c # b) = Some (length a)"
  by (induction a) (simp_all add: last_position_absent)

lemma lastIndexOf_last: "c \<notin> set b \<Longrightarrow> lastIndexOf (a @ c # b) c = int (length a)"
  by (simp add: lastIndexOf_def last_position_last)

lemma substring_middle:
  "substring (a @ m @ b) (int (length a)) (int (length a + length m)) = m"
  by (simp add: substring_def clamp_index_def Let_def)

lemma substring_from_suffix: "substring_from (a @ b) (int (length a)) = b"
  by (simp add: substring_from_def substring_def clamp_index_def Let_def)

text \<open>
  On a path \<open>dirs/name:tag\<close> the two substrings are \<open>name\<close> and \<open>tag\<close>, whatever
  \<open>dirs\<close> is.
\<close>

lemma imageName_last_segment:
  assumes "CHR ''/'' \<notin> set nm" and "CHR ''/'' \<notin> set tg" and "CHR '':'' \<notin> set tg"
  shows "imageName \<lparr>host = h, pathname = dirs @ ''/'' @ nm @ '':'' @ tg\<rparr> = nm"
proof -
  let ?p = "dirs @ ''/'' @ nm @ '':'' @ tg"
  have s: "lastIndexOf ?p CHR ''/'' = int (length dirs)"
    using assms lastIndexOf_last [of "CHR ''/''" "nm @ '':'' @ tg" dirs] by simp
  have c: "lastIndexOf ?p CHR '':'' = int (length (dirs @ ''/'') + length nm)"
    using assms lastIndexOf_last [of "CHR '':''" tg "dirs @ ''/'' @ nm"] by simp
  have "substring ((dirs @ ''/'') @ nm @ ('':'' @ tg)) (int (length (dirs @ ''/'')))
          (int (length (dirs @ ''/'') + length nm)) = nm"
    by (rule substring_middle)
  then show ?thesis using s c by (simp add: imageName_def add.commute)
qed

lemma imageTag_after_colon:
  assumes "CHR '':'' \<notin> set tg"
  shows "imageTag \<lparr>host = h, pathname = dirs @ ''/'' @ nm @ '':'' @ tg\<rparr> = tg"
proof -
  let ?p = "dirs @ ''/'' @ nm @ '':'' @ tg"
  have c: "lastIndexOf ?p CHR '':'' = int (length (dirs @ ''/'' @ nm))"
    using assms lastIndexOf_last [of "CHR '':''" tg "dirs @ ''/'' @ nm"] by simp
  have "substring_from ((dirs @ ''/'' @ nm @ '':'') @ tg) (int (length (dirs @ ''/'' @ nm @ '':''))) = tg"
    by (rule substring_from_suffix)
  then show ?thesis using c by (simp add: imageTag_def add.commute)
qed

text \<open>
  C9 (the code departs from the claim). The reference \<open>gcr.io/p/team/x:v1\<close> has the
  repository path \<open>p/team/x\<close>. The run keeps \<open>x\<close> and \<open>v1\<close> only, asks the registry for
  the manifest of \<open>p/x\<close>, and reports the image as available when that other manifest
  exists. The reference \<open>gcr.io/p/x\<close>, which has no tag, is split into the name \<open>/p/\<close>
  and the tag \<open>/p/x\<close>; no error is thrown.
\<close>

theorem waitForDockerImage_drops_path_segments:
  "imageName \<lparr>host = ''gcr.io'', pathname = ''/p/team/x:v1''\<rparr> = ''x'' \<and>
   imageTag \<lparr>host = ''gcr.io'', pathname = ''/p/team/x:v1''\<rparr> = ''v1'' \<and>
   waitForDockerImage [''image_check_timeout'' \<mapsto> ''1'', ''image_check_interval'' \<mapsto> ''30'']
     (example_registry\<lparr>head_results := (\<lambda>k. Returns)\<rparr>) ''gcr.io/p/team/x:v1'' =
     Some ([HeadRequest ''https://gcr.io/v2/p/x/manifests/v1''], Inr True) \<and>
   imageName \<lparr>host = ''gcr.io'', pathname = ''/p/x''\<rparr> = ''/p/'' \<and>
   imageTag \<lparr>host = ''gcr.io'', pathname = ''/p/x''\<rparr> = ''/p/x'' \<and>
   waitForDockerImage [''image_check_timeout'' \<mapsto> ''1'', ''image_check_interval'' \<mapsto> ''30'']
     (example_registry\<lparr>head_results := (\<lambda>k. Returns)\<rparr>) ''gcr.io/p/x'' =
     Some ([HeadRequest ''https://gcr.io/v2/p//p//manifests//p/x''], Inr True)"
  by code_simp

subsection \<open>Credentials\<close>

text \<open>
  C8 (the code departs from the claim). The key input names an existing file; the
  provisioner writes the name itself, not the file's contents, to the credentials file,
  while \<open>getEnvVarsFromImage\<close> reads the contents.
\<close>

theorem credentials_file_holds_path:
  "files (setGoogleApplicationCredentials ''/tmp/a1b2c3d4'' ''/secrets/key.json''
      \<lparr>files = [''/secrets/key.json'' \<mapsto> ''{}''], environment = Map.empty\<rparr>)
     ''/tmp/a1b2c3d4'' = Some ''/secrets/key.json'' \<and>
   environment (setGoogleApplicationCredentials ''/tmp/a1b2c3d4'' ''/secrets/key.json''
      \<lparr>files = [''/secrets/key.json'' \<mapsto> ''{}''], environment = Map.empty\<rparr>)
     ''GOOGLE_APPLICATION_CREDENTIALS'' = Some ''/tmp/a1b2c3d4'' \<and>
   serviceAccountKeyContents
      \<lparr>files = [''/secrets/key.json'' \<mapsto> ''{}''], environment = Map.empty\<rparr>
      ''/secrets/key.json'' = ''{}''"
  by (simp add: setGoogleApplicationCredentials_def serviceAccountKeyContents_def)

end
